theory Spec2Isabelle
  imports Complex_Main "HOL-Library.Monad_Syntax"
begin

section \<open>The chroma-key fragment shader\<close>

text \<open>
  The fragment shader \<open>chromaKeyFragmentShader\<close> is the same text in both source files.
  GLSL \<open>float\<close> is modelled by \<open>real\<close>: the theorems below are about the arithmetic the
  shader text denotes, not about the rounding of a particular graphics device. An
  operation whose result GLSL leaves undefined (a division by zero, \<open>pow\<close> outside its
  domain) returns \<open>None\<close>.
\<close>

subsection \<open>Vectors and uniforms\<close>

record vec2 =
  chroma_u :: real
  chroma_v :: real

record vec3 =
  red :: real
  green :: real
  blue :: real

record vec4 = vec3 +
  alpha :: real

text \<open>The swizzle \<open>rgba.rgb\<close>.\<close>

definition rgb :: "vec4 \<Rightarrow> vec3" where
  "rgb rgba = \<lparr>red = red rgba, green = green rgba, blue = blue rgba\<rparr>"

text \<open>
  The uniforms of the shader. The sampler \<open>tex\<close> and the varying \<open>vUv\<close> only select
  the sample \<open>texture2D(tex, vUv)\<close>; the sample itself is the argument of \<open>main\<close>.
\<close>

record uniforms =
  keyColor :: vec3
  similarity :: real
  smoothness :: real
  spill :: real

subsection \<open>GLSL built-ins\<close>

definition distance :: "vec2 \<Rightarrow> vec2 \<Rightarrow> real" where
  "distance p0 p1 =
     sqrt ((chroma_u p0 - chroma_u p1)\<^sup>2 + (chroma_v p0 - chroma_v p1)\<^sup>2)"

definition clamp :: "real \<Rightarrow> real \<Rightarrow> real \<Rightarrow> real" where
  "clamp x minVal maxVal = min (max x minVal) maxVal"

definition mix :: "real \<Rightarrow> real \<Rightarrow> real \<Rightarrow> real" where
  "mix x y a = x * (1 - a) + y * a"

text \<open>\<open>mix\<close> on \<open>vec3\<close> with a scalar weight, and the constructor \<open>vec3(x)\<close>.\<close>

definition mix3 :: "vec3 \<Rightarrow> vec3 \<Rightarrow> real \<Rightarrow> vec3" where
  "mix3 x y a =
     \<lparr>red = mix (red x) (red y) a, green = mix (green x) (green y) a,
      blue = mix (blue x) (blue y) a\<rparr>"

definition vec3_of :: "real \<Rightarrow> vec3" where
  "vec3_of x = \<lparr>red = x, green = x, blue = x\<rparr>"

text \<open>\<open>pow(x, y)\<close> is undefined for \<open>x < 0\<close>, and for \<open>x = 0\<close> with \<open>y \<le> 0\<close>.\<close>

definition pow :: "real \<Rightarrow> real \<Rightarrow> real option" where
  "pow x y = (if x < 0 \<or> (x = 0 \<and> y \<le> 0) then None else Some (x powr y))"

text \<open>The operator \<open>/\<close> on floats; the result of a division by zero is undefined.\<close>

definition gl_div :: "real \<Rightarrow> real \<Rightarrow> real option" where
  "gl_div x y = (if y = 0 then None else Some (x / y))"

subsection \<open>The shader\<close>

definition RGBtoUV :: "vec3 \<Rightarrow> vec2" where
  "RGBtoUV c =
     \<lparr>chroma_u = red c * - 0.169 + green c * - 0.331 + blue c * 0.5 + 0.5,
      chroma_v = red c * 0.5 + green c * - 0.419 + blue c * - 0.081 + 0.5\<rparr>"

text \<open>
  The locals of \<open>main\<close>, each as a function of the uniforms and of the locals it reads.
\<close>

definition chromaDist :: "uniforms \<Rightarrow> vec4 \<Rightarrow> real" where
  "chromaDist p rgba = distance (RGBtoUV (rgb rgba)) (RGBtoUV (keyColor p))"

definition baseMask :: "uniforms \<Rightarrow> real \<Rightarrow> real" where
  "baseMask p chromaDist_v = chromaDist_v - similarity p"

definition fullMask :: "uniforms \<Rightarrow> real \<Rightarrow> real option" where
  "fullMask p baseMask_v =
     do { q \<leftarrow> gl_div baseMask_v (smoothness p); pow (clamp q 0 1) 1.5 }"

definition spillVal :: "uniforms \<Rightarrow> real \<Rightarrow> real option" where
  "spillVal p baseMask_v =
     do { q \<leftarrow> gl_div baseMask_v (spill p); pow (clamp q 0 1) 1.5 }"

definition desat :: "vec4 \<Rightarrow> real" where
  "desat rgba =
     clamp (red rgba * 0.2126 + green rgba * 0.7152 + blue rgba * 0.0722) 0 1"

text \<open>
  \<open>main\<close> returns the value written to \<open>gl_FragColor\<close>. Its colour is undefined
  when \<open>spillVal\<close> is, its alpha when \<open>fullMask\<close> is.
\<close>

record fragment =
  frag_rgb :: "vec3 option"
  frag_alpha :: "real option"

definition main :: "uniforms \<Rightarrow> vec4 \<Rightarrow> fragment" where
  "main p rgba =
     (let chromaDist_v = chromaDist p rgba;
          baseMask_v = baseMask p chromaDist_v;
          fullMask_v = fullMask p baseMask_v;
          spillVal_v = spillVal p baseMask_v;
          desat_v = desat rgba
      in \<lparr>frag_rgb = map_option (mix3 (vec3_of desat_v) (rgb rgba)) spillVal_v,
          frag_alpha = fullMask_v\<rparr>)"

text \<open>
  The uniforms that \<open>init\<close> gives the shader material: in \<open>app.js\<close> (the canvas demo),
  and in the video showcase.
\<close>

definition material_uniforms :: uniforms where
  "material_uniforms =
     \<lparr>keyColor = \<lparr>red = 0, green = 1, blue = 0\<rparr>,
      similarity = 0.3, smoothness = 0.1, spill = 0.15\<rparr>"

definition video_material_uniforms :: uniforms where
  "video_material_uniforms =
     \<lparr>keyColor = \<lparr>red = 0, green = 1, blue = 0\<rparr>,
      similarity = 0.4, smoothness = 0.08, spill = 0.1\<rparr>"

definition pure_green :: vec4 where
  "pure_green = \<lparr>red = 0, green = 1, blue = 0, alpha = 1\<rparr>"

definition pure_red :: vec4 where
  "pure_red = \<lparr>red = 1, green = 0, blue = 0, alpha = 1\<rparr>"

section \<open>The application state of \<open>app.js\<close>\<close>

text \<open>
  The module-level variables of \<open>app.js\<close>, the objects \<open>init\<close> creates and the parts
  of the page its handlers write are the fields of one record. Every handler is a
  function from state to state. An \<open>async\<close> handler is cut at each \<open>await\<close>: the
  part before it is one function, and each way the awaited promise can settle is
  another, run as a later event. JavaScript runs one such piece at a time, so a run of
  the program is a list of events. The \<open>resize\<close> listener writes only the camera and
  the size of the renderer, which are not part of the state.
\<close>

subsection \<open>Data\<close>

text \<open>
  A number that indexes \<open>DEMOS\<close>: a natural number, or the \<open>NaN\<close> that \<open>%\<close> gives for
  a zero divisor.
\<close>

datatype jsnum = Num nat | NaN

text \<open>A loaded image (\<open>tex.image\<close>) is identified by a number.\<close>

type_synonym image = nat

text \<open>
  The \<open>draw\<close> member of an entry of \<open>DEMOS\<close>: one of the three drawing functions, or
  the closure the AI handler pushes, which draws the image it captured. A JavaScript
  string is a list of characters, \<open>+\<close> is \<open>@\<close> and \<open>substring(0, 25)\<close> is \<open>take 25\<close>.
\<close>

datatype drawfn = drawRobot | drawLogo | drawParticles | drawAI image

record demo =
  demo_name :: string
  demo_draw :: drawfn

text \<open>
  The two kinds of \<open>CanvasTexture\<close>: the one \<open>init\<close> makes over \<open>sourceCanvas\<close>, and the
  one the AI handler makes over a fresh canvas on which it has drawn the loaded image.
\<close>

datatype texture = SourceCanvasTexture | AiCanvasTexture image

text \<open>\<open>videoMesh.material\<close>: the shader material, or a basic material with a map.\<close>

datatype mesh_material = ShaderMaterial | MeshBasicMaterial texture

text \<open>
  The texts the handlers write into the buttons and into the toast, each named
  after its words.
\<close>

datatype label =
    ChromaKey_ON | ChromaKey_OFF
  | Generating | AI_Generate
  | AR_Mode | View_3D
  | AI_scene_loaded | AI_generation_failed | AR_mode_off | AR_Camera_active
  | Camera_access_denied

text \<open>
  The URL \<open>generateAIScene\<close> returns is determined by the prompt and by \<open>Date.now()\<close>.
\<close>

record url =
  url_prompt :: string
  url_seed :: nat

text \<open>
  A \<open>loader.load\<close> that has not settled yet, with what the rest of the handler has
  captured: the URL and \<open>customPrompt\<close>.
\<close>

record ai_load =
  load_url :: url
  load_customPrompt :: "string option"

text \<open>A \<open>MediaStream\<close>: its tracks, each identified by a number.\<close>

record stream =
  getTracks :: "nat list"

record app =
  DEMOS :: "demo list"
  currentDemo :: jsnum
  aiImageLoading :: bool
  aiPromptIndex :: nat
  chromaKeyEnabled :: bool
  animationFrame :: nat
  sourceTexture :: texture
  sourceCanvas :: "(drawfn \<times> real) list"
  tex :: texture
  shader_uniforms :: uniforms
  videoMesh_material :: mesh_material
  preview_map :: texture
  network_log :: "url list"
  pending_loads :: "ai_load list"
  arStream :: "stream option"
  live_tracks :: "nat set"
  pending_getUserMedia :: nat
  pending_play :: nat
  ar_videos :: "stream list"
  clearColor :: "nat \<times> real"
  grid_visible :: bool
  ar_active :: bool
  ar_text :: "label option"
  ar_class_active :: bool
  ai_text :: "label option"
  ai_opacity :: "real option"
  chroma_text :: "label option"
  demo_name_text :: "string option"
  toast :: "label option"
  toast_visible :: bool
  toast_timer :: bool

text \<open>
  \<^item> \<open>sourceCanvas\<close> is the list of the calls \<open>draw(sourceCtx, 512, 512, t)\<close> made so
    far, the latest first: the pixels of the canvas are a function of it.
  \<^item> \<open>tex\<close> is \<open>material.uniforms.tex.value\<close> and \<open>shader_uniforms\<close> the other uniforms of
    \<open>material\<close>; \<open>preview_map\<close> is the map of the preview mesh.
  \<^item> \<open>network_log\<close> lists the URLs given to \<open>loader.load\<close>, the latest first.
  \<^item> \<open>arStream\<close> is \<open>window._arStream\<close>; \<open>live_tracks\<close> are the tracks of the streams
    \<open>getUserMedia\<close> has delivered that have not been stopped; \<open>pending_getUserMedia\<close>
    and \<open>pending_play\<close> count the unsettled promises of the AR handler.
  \<^item> \<open>ar_videos\<close> are the elements with id \<open>ar-video\<close> in document order, each with
    its \<open>srcObject\<close>.
  \<^item> \<open>ar_active\<close> is \<open>btn.dataset.active === 'true'\<close>.
  \<^item> A text or style of the page is \<open>None\<close> until a handler writes it; \<open>toast\<close> is
    \<open>None\<close> until \<open>showToast\<close> creates the element. \<open>toast_timer\<close> says that the timeout
    that hides the toast is pending.
\<close>

subsection \<open>Constants\<close>

definition initial_DEMOS :: "demo list" where
  "initial_DEMOS =
     [\<lparr>demo_name = ''Dancing Robot'', demo_draw = drawRobot\<rparr>,
      \<lparr>demo_name = ''Spinning Logo'', demo_draw = drawLogo\<rparr>,
      \<lparr>demo_name = ''Particle Storm'', demo_draw = drawParticles\<rparr>]"

definition AI_SCENE_PROMPTS :: "string list" where
  "AI_SCENE_PROMPTS =
     [''holographic dancer performing in neon lights dark stage'',
      ''floating crystal orb with swirling energy inside dark void'',
      ''ethereal ghost figure glowing translucent on dark background'',
      ''robot DJ with turntables neon cyberpunk stage dark background'',
      ''phoenix bird made of fire rising dark background'',
      ''astronaut floating in space with stars and nebula'',
      ''samurai warrior with glowing sword dark misty background'',
      ''dragon breathing colorful fire dark fantasy background'']"

subsection \<open>Helpers\<close>

text \<open>\<open>xs[i]\<close>: \<open>None\<close> stands for \<open>undefined\<close>.\<close>

definition index :: "'a list \<Rightarrow> jsnum \<Rightarrow> 'a option" where
  "index xs i =
     (case i of NaN \<Rightarrow> None | Num n \<Rightarrow> if n < length xs then Some (xs ! n) else None)"

text \<open>\<open>(i + 1) % n\<close> on the numbers that occur here.\<close>

definition succ_mod :: "jsnum \<Rightarrow> nat \<Rightarrow> jsnum" where
  "succ_mod i n =
     (case i of NaN \<Rightarrow> NaN | Num k \<Rightarrow> if n = 0 then NaN else Num ((k + 1) mod n))"

text \<open>The operand \<open>customPrompt\<close> of \<open>||\<close>: the empty string and \<open>null\<close> are falsy.\<close>

definition truthy :: "string option \<Rightarrow> string option" where
  "truthy v = (case v of None \<Rightarrow> None | Some p \<Rightarrow> if p = [] then None else Some p)"

definition remove_nth :: "nat \<Rightarrow> 'a list \<Rightarrow> 'a list" where
  "remove_nth i xs = take i xs @ drop (Suc i) xs"

definition showToast :: "label \<Rightarrow> app \<Rightarrow> app" where
  "showToast msg s = s\<lparr>toast := Some msg, toast_visible := True, toast_timer := True\<rparr>"

text \<open>The callback of the timeout that \<open>showToast\<close> sets.\<close>

definition toast_timeout :: "app \<Rightarrow> app" where
  "toast_timeout s =
     (if toast_timer s then s\<lparr>toast_visible := False, toast_timer := False\<rparr> else s)"

subsection \<open>The frame callback\<close>

text \<open>
  \<open>animate\<close>: the demo selected by \<open>currentDemo\<close> draws on \<open>sourceCanvas\<close>. When
  \<open>DEMOS[currentDemo]\<close> is \<open>undefined\<close>, reading \<open>.draw\<close> throws a TypeError that nothing
  catches: the callback ends there, and the state keeps what was assigned before.
  The camera controls, the orientation of the meshes and the ring are not part of
  the state.
\<close>

definition animate :: "real \<Rightarrow> app \<Rightarrow> app" where
  "animate t s =
     (let s1 = s\<lparr>animationFrame := animationFrame s + 1\<rparr>
      in case index (DEMOS s1) (currentDemo s1) of
           None \<Rightarrow> s1
         | Some d \<Rightarrow> s1\<lparr>sourceCanvas := (demo_draw d, t) # sourceCanvas s1\<rparr>)"

subsection \<open>The handlers of the controls\<close>

definition toggle_chroma :: "app \<Rightarrow> app" where
  "toggle_chroma s =
     (let s1 = s\<lparr>chromaKeyEnabled := \<not> chromaKeyEnabled s\<rparr>
      in if chromaKeyEnabled s1
         then s1\<lparr>videoMesh_material := ShaderMaterial, chroma_text := Some ChromaKey_ON\<rparr>
         else s1\<lparr>videoMesh_material := MeshBasicMaterial (sourceTexture s1),
                 chroma_text := Some ChromaKey_OFF\<rparr>)"

text \<open>
  \<open>next-demo\<close>: the assignment to \<open>currentDemo\<close> comes first; if the entry is
  \<open>undefined\<close>, reading \<open>.name\<close> throws and the text is not written.
\<close>

definition next_demo :: "app \<Rightarrow> app" where
  "next_demo s =
     (let s1 = s\<lparr>currentDemo := succ_mod (currentDemo s) (length (DEMOS s))\<rparr>
      in case index (DEMOS s1) (currentDemo s1) of
           None \<Rightarrow> s1
         | Some d \<Rightarrow> s1\<lparr>demo_name_text := Some (demo_name d)\<rparr>)"

text \<open>The sliders; the argument is the number \<open>parseFloat\<close> returns.\<close>

definition similarity_input :: "real \<Rightarrow> app \<Rightarrow> app" where
  "similarity_input v s = s\<lparr>shader_uniforms := (shader_uniforms s)\<lparr>similarity := v\<rparr>\<rparr>"

definition smoothness_input :: "real \<Rightarrow> app \<Rightarrow> app" where
  "smoothness_input v s = s\<lparr>shader_uniforms := (shader_uniforms s)\<lparr>smoothness := v\<rparr>\<rparr>"

subsection \<open>The AI Generate button\<close>

definition generateAIScene :: "string option \<Rightarrow> nat \<Rightarrow> app \<Rightarrow> url \<times> app" where
  "generateAIScene customPrompt now s =
     (let prompt = (case truthy customPrompt of
                      Some p \<Rightarrow> p
                    | None \<Rightarrow> AI_SCENE_PROMPTS ! (aiPromptIndex s mod length AI_SCENE_PROMPTS))
      in (\<lparr>url_prompt = prompt @
             '', centered subject, green screen background, chroma key ready, high contrast'',
           url_seed = now\<rparr>,
          s\<lparr>aiPromptIndex := aiPromptIndex s + 1\<rparr>))"

text \<open>
  The handler up to its \<open>await\<close>. The first argument is the trimmed value of the
  prompt box (\<open>None\<close> when there is none), the second is \<open>Date.now()\<close>.
\<close>

definition ai_generate_click :: "string option \<Rightarrow> nat \<Rightarrow> app \<Rightarrow> app" where
  "ai_generate_click v now s =
     (if aiImageLoading s then s
      else
        let s1 = s\<lparr>aiImageLoading := True, ai_text := Some Generating,
                   ai_opacity := Some 0.5\<rparr>;
            customPrompt = truthy v;
            (u, s2) = generateAIScene customPrompt now s1
        in s2\<lparr>network_log := u # network_log s2,
              pending_loads := pending_loads s2 @
                [\<lparr>load_url = u, load_customPrompt = customPrompt\<rparr>]\<rparr>)"

text \<open>The \<open>catch\<close> and the \<open>finally\<close> block.\<close>

definition ai_catch :: "app \<Rightarrow> app" where
  "ai_catch s = showToast AI_generation_failed s"

definition ai_finally :: "app \<Rightarrow> app" where
  "ai_finally s =
     s\<lparr>aiImageLoading := False, ai_text := Some AI_Generate, ai_opacity := Some 1\<rparr>"

text \<open>
  The rest of the handler when the \<open>i\<close>-th pending load resolves with an image. The
  name of the new demo reads \<open>aiPromptIndex\<close> again: at 0 the index is \<open>-1\<close>, the prompt
  is \<open>undefined\<close> and \<open>.substring\<close> throws into the \<open>catch\<close>, after the texture has been
  replaced. With no such pending load the event cannot happen and the state stays.
\<close>

definition ai_load_resolved :: "nat \<Rightarrow> image \<Rightarrow> app \<Rightarrow> app" where
  "ai_load_resolved i img s =
     (if i < length (pending_loads s) then
        let ld = pending_loads s ! i;
            s0 = s\<lparr>pending_loads := remove_nth i (pending_loads s)\<rparr>;
            aiTexture = AiCanvasTexture img;
            s1 = s0\<lparr>tex := aiTexture, preview_map := aiTexture\<rparr>;
            prompt = (case truthy (load_customPrompt ld) of
                        Some p \<Rightarrow> Some p
                      | None \<Rightarrow>
                          if aiPromptIndex s1 = 0 then None
                          else Some (AI_SCENE_PROMPTS !
                                 ((aiPromptIndex s1 - 1) mod length AI_SCENE_PROMPTS)))
        in case prompt of
             None \<Rightarrow> ai_finally (ai_catch s1)
           | Some p \<Rightarrow>
               let s2 = s1\<lparr>DEMOS := DEMOS s1 @
                          [\<lparr>demo_name = ''AI: '' @ take 25 p, demo_draw = drawAI img\<rparr>]\<rparr>;
                   s3 = s2\<lparr>currentDemo := Num (length (DEMOS s2) - 1)\<rparr>
               in case index (DEMOS s3) (currentDemo s3) of
                    None \<Rightarrow> ai_finally (ai_catch s3)
                  | Some d \<Rightarrow>
                      ai_finally (showToast AI_scene_loaded
                        (s3\<lparr>demo_name_text := Some (demo_name d),
                            sourceTexture := aiTexture\<rparr>))
      else s)"

text \<open>The rest of the handler when the \<open>i\<close>-th pending load fails.\<close>

definition ai_load_rejected :: "nat \<Rightarrow> app \<Rightarrow> app" where
  "ai_load_rejected i s =
     (if i < length (pending_loads s)
      then ai_finally (ai_catch (s\<lparr>pending_loads := remove_nth i (pending_loads s)\<rparr>))
      else s)"

subsection \<open>The AR Mode button\<close>

text \<open>
  The handler up to its first \<open>await\<close>. The argument says whether
  \<open>navigator.mediaDevices\<close> exists; without it the call throws into the \<open>catch\<close>.
  Both branches traverse the scene for objects with \<open>isGridHelper\<close>; a \<open>GridHelper\<close>
  of three.js has no such member, so the traversals write nothing and \<open>grid_visible\<close>
  keeps its value.
\<close>

definition ar_camera_click :: "bool \<Rightarrow> app \<Rightarrow> app" where
  "ar_camera_click mediaDevices s =
     (if ar_active s then
        let s1 = (case arStream s of
                    None \<Rightarrow> s
                  | Some st \<Rightarrow> s\<lparr>live_tracks := live_tracks s - set (getTracks st),
                                 arStream := None\<rparr>);
            s2 = (case ar_videos s1 of [] \<Rightarrow> s1 | vid # rest \<Rightarrow> s1\<lparr>ar_videos := rest\<rparr>)
        in showToast AR_mode_off
             (s2\<lparr>clearColor := (0x08080f, 1), ar_active := False,
                 ar_text := Some AR_Mode, ar_class_active := False\<rparr>)
      else if mediaDevices
        then s\<lparr>pending_getUserMedia := pending_getUserMedia s + 1\<rparr>
        else showToast Camera_access_denied s)"

text \<open>\<open>getUserMedia\<close> delivers a stream: the handler runs up to \<open>await vid.play()\<close>.\<close>

definition getUserMedia_resolved :: "stream \<Rightarrow> app \<Rightarrow> app" where
  "getUserMedia_resolved st s =
     (if pending_getUserMedia s = 0 then s
      else s\<lparr>pending_getUserMedia := pending_getUserMedia s - 1,
             live_tracks := live_tracks s \<union> set (getTracks st),
             arStream := Some st,
             ar_videos := st # ar_videos s,
             pending_play := pending_play s + 1\<rparr>)"

definition getUserMedia_rejected :: "app \<Rightarrow> app" where
  "getUserMedia_rejected s =
     (if pending_getUserMedia s = 0 then s
      else showToast Camera_access_denied
             (s\<lparr>pending_getUserMedia := pending_getUserMedia s - 1\<rparr>))"

definition play_resolved :: "app \<Rightarrow> app" where
  "play_resolved s =
     (if pending_play s = 0 then s
      else showToast AR_Camera_active
             (s\<lparr>pending_play := pending_play s - 1, clearColor := (0x000000, 0),
                 ar_active := True, ar_text := Some View_3D,
                 ar_class_active := True\<rparr>))"

definition play_rejected :: "app \<Rightarrow> app" where
  "play_rejected s =
     (if pending_play s = 0 then s
      else showToast Camera_access_denied (s\<lparr>pending_play := pending_play s - 1\<rparr>))"

subsection \<open>Start and runs\<close>

text \<open>
  \<open>init\<close> builds the scene, installs the handlers and calls \<open>animate\<close> once; the clock
  starts at 0. The renderer is created with \<open>alpha: true\<close>, so it clears to
  transparent black.
\<close>

definition init :: app where
  "init = animate 0
     \<lparr>DEMOS = initial_DEMOS, currentDemo = Num 0, aiImageLoading = False,
      aiPromptIndex = 0, chromaKeyEnabled = True, animationFrame = 0,
      sourceTexture = SourceCanvasTexture, sourceCanvas = [],
      tex = SourceCanvasTexture, shader_uniforms = material_uniforms,
      videoMesh_material = ShaderMaterial, preview_map = SourceCanvasTexture,
      network_log = [], pending_loads = [],
      arStream = None, live_tracks = {}, pending_getUserMedia = 0, pending_play = 0,
      ar_videos = [], clearColor = (0x000000, 0), grid_visible = True,
      ar_active = False, ar_text = None, ar_class_active = False,
      ai_text = None, ai_opacity = None, chroma_text = None, demo_name_text = None,
      toast = None, toast_visible = False, toast_timer = False\<rparr>"

datatype event =
    ToggleChroma
  | NextDemo
  | SimilarityInput real
  | SmoothnessInput real
  | AiGenerateClick "string option" nat
  | AiLoadResolved nat image
  | AiLoadRejected nat
  | ArCameraClick bool
  | GetUserMediaResolved stream
  | GetUserMediaRejected
  | PlayResolved
  | PlayRejected
  | AnimationFrame real
  | ToastTimeout

fun step :: "event \<Rightarrow> app \<Rightarrow> app" where
  "step ToggleChroma s = toggle_chroma s"
| "step NextDemo s = next_demo s"
| "step (SimilarityInput v) s = similarity_input v s"
| "step (SmoothnessInput v) s = smoothness_input v s"
| "step (AiGenerateClick v now) s = ai_generate_click v now s"
| "step (AiLoadResolved i img) s = ai_load_resolved i img s"
| "step (AiLoadRejected i) s = ai_load_rejected i s"
| "step (ArCameraClick mediaDevices) s = ar_camera_click mediaDevices s"
| "step (GetUserMediaResolved st) s = getUserMedia_resolved st s"
| "step GetUserMediaRejected s = getUserMedia_rejected s"
| "step PlayResolved s = play_resolved s"
| "step PlayRejected s = play_rejected s"
| "step (AnimationFrame t) s = animate t s"
| "step ToastTimeout s = toast_timeout s"

text \<open>The state after \<open>init\<close> and a list of events, in the order they happen.\<close>

definition run :: "event list \<Rightarrow> app" where
  "run evs = fold step evs init"

section \<open>Properties of the shader\<close>

subsection \<open>Auxiliary facts\<close>

lemma chromaDist_key: "rgb rgba = keyColor p \<Longrightarrow> chromaDist p rgba = 0"
  by (simp add: chromaDist_def distance_def)

lemma clamp_unit: "0 \<le> clamp x 0 1 \<and> clamp x 0 1 \<le> 1"
  by (simp add: clamp_def)

lemma clamp_mono: "x \<le> y \<Longrightarrow> clamp x lo hi \<le> clamp y lo hi"
  by (simp add: clamp_def min_def max_def)

lemma pow_clamp: "0 < y \<Longrightarrow> pow (clamp x 0 1) y = Some (clamp x 0 1 powr y)"
  using clamp_unit [of x] by (simp add: pow_def)

lemma fullMask_eq:
  "smoothness p \<noteq> 0 \<Longrightarrow>
   fullMask p m = Some (clamp (m / smoothness p) 0 1 powr 1.5)"
  by (simp add: fullMask_def gl_div_def pow_clamp)

lemma spillVal_eq:
  "spill p \<noteq> 0 \<Longrightarrow> spillVal p m = Some (clamp (m / spill p) 0 1 powr 1.5)"
  by (simp add: spillVal_def gl_div_def pow_clamp)

lemma fullMask_undefined: "smoothness p = 0 \<Longrightarrow> fullMask p m = None"
  by (simp add: fullMask_def gl_div_def)

lemma spillVal_undefined: "spill p = 0 \<Longrightarrow> spillVal p m = None"
  by (simp add: spillVal_def gl_div_def)

lemma main_alpha:
  "frag_alpha (main p rgba) = fullMask p (baseMask p (chromaDist p rgba))"
  by (simp add: main_def Let_def)

lemma main_rgb:
  "frag_rgb (main p rgba) =
     map_option (mix3 (vec3_of (desat rgba)) (rgb rgba))
       (spillVal p (baseMask p (chromaDist p rgba)))"
  by (simp add: main_def Let_def)

lemma fullMask_below:
  assumes "0 < smoothness p" and "m \<le> 0"
  shows "fullMask p m = Some 0"
proof -
  have "m / smoothness p \<le> 0" using assms by (simp add: divide_nonpos_pos)
  then have "clamp (m / smoothness p) 0 1 = 0" by (simp add: clamp_def)
  then show ?thesis using assms(1) by (simp add: fullMask_eq)
qed

lemma fullMask_saturated:
  assumes "0 < smoothness p" and "smoothness p \<le> m"
  shows "fullMask p m = Some 1"
proof -
  have "1 \<le> m / smoothness p" using assms by (simp add: le_divide_eq)
  then have "clamp (m / smoothness p) 0 1 = 1" by (simp add: clamp_def)
  then show ?thesis using assms(1) by (simp add: fullMask_eq)
qed

lemma mix_unit:
  assumes "0 \<le> x" "x \<le> 1" "0 \<le> y" "y \<le> 1" "0 \<le> a" "a \<le> 1"
  shows "0 \<le> mix x y a \<and> mix x y a \<le> 1"
proof
  show "0 \<le> mix x y a" using assms by (simp add: mix_def)
  have "x * (1 - a) \<le> 1 * (1 - a)" using assms by (intro mult_right_mono) auto
  moreover have "y * a \<le> 1 * a" using assms by (intro mult_right_mono) auto
  ultimately show "mix x y a \<le> 1" by (simp add: mix_def)
qed

lemma powr_unit:
  "0 \<le> (x::real) \<Longrightarrow> x \<le> 1 \<Longrightarrow> 0 \<le> x powr 1.5 \<and> x powr 1.5 \<le> 1"
  by (simp add: powr_le1)

lemma chromaDist_red_green:
  "keyColor p = \<lparr>red = 0, green = 1, blue = 0\<rparr> \<Longrightarrow>
   chromaDist p pure_red = sqrt (870805 / 1000000)"
  by (simp add: chromaDist_def distance_def RGBtoUV_def rgb_def pure_red_def
      power2_eq_square)

lemma sqrt_red_green: "(12 / 25 :: real) \<le> sqrt (870805 / 1000000)"
  by (rule real_le_rsqrt) (simp add: power2_eq_square)

lemma baseMask_red_video:
  "smoothness video_material_uniforms
     \<le> baseMask video_material_uniforms (chromaDist video_material_uniforms pure_red)"
proof -
  have k: "keyColor video_material_uniforms = \<lparr>red = 0, green = 1, blue = 0\<rparr>"
    by (simp add: video_material_uniforms_def)
  have "smoothness video_material_uniforms
          \<le> sqrt (870805 / 1000000) - similarity video_material_uniforms"
    using sqrt_red_green by (simp add: video_material_uniforms_def)
  then show ?thesis by (simp only: chromaDist_red_green [OF k] baseMask_def)
qed

subsection \<open>The key colour is removed\<close>

text \<open>
  C1: for every input pixel whose RGB triple equals the key colour, \<open>chromaDist\<close> is
  0, so \<open>baseMask\<close> is \<open>- similarity\<close>, and for any \<open>similarity > 0\<close> the alpha written
  by the shader is 0. The uniforms are key parameters, whose \<open>smoothness\<close> is positive.
\<close>

theorem key_pixel_transparent:
  assumes "rgb rgba = keyColor p" and "0 < similarity p" and "0 < smoothness p"
  shows "chromaDist p rgba = 0 \<and>
         baseMask p (chromaDist p rgba) = - similarity p \<and>
         frag_alpha (main p rgba) = Some 0"
proof -
  have d: "chromaDist p rgba = 0" using assms(1) by (rule chromaDist_key)
  have b: "baseMask p (chromaDist p rgba) = - similarity p"
    by (simp add: d baseMask_def)
  have "fullMask p (baseMask p (chromaDist p rgba)) = Some 0"
    using assms(2,3) by (simp add: b fullMask_below)
  then show ?thesis using d b by (simp add: main_alpha)
qed

theorem key_pixel_transparent_witness:
  "rgb pure_green = keyColor material_uniforms \<and>
   0 < similarity material_uniforms \<and> 0 < smoothness material_uniforms \<and>
   chromaDist material_uniforms pure_green = 0 \<and>
   frag_alpha (main material_uniforms pure_green) = Some 0"
  using key_pixel_transparent [of pure_green material_uniforms]
  by (simp add: rgb_def material_uniforms_def pure_green_def)

subsection \<open>Saturation and monotonicity of alpha\<close>

text \<open>
  C2: with \<open>smoothness > 0\<close>, every input pixel whose \<open>chromaDist\<close> from the key colour
  is at least \<open>similarity + smoothness\<close> gets alpha 1.
\<close>

theorem far_pixel_opaque:
  assumes "0 < smoothness p"
    and "similarity p + smoothness p \<le> chromaDist p rgba"
  shows "frag_alpha (main p rgba) = Some 1"
proof -
  have "smoothness p \<le> baseMask p (chromaDist p rgba)"
    using assms(2) by (simp add: baseMask_def)
  then have "fullMask p (baseMask p (chromaDist p rgba)) = Some 1"
    using assms(1) by (simp add: fullMask_saturated)
  then show ?thesis by (simp add: main_alpha)
qed

theorem far_pixel_opaque_witness:
  "0 < smoothness video_material_uniforms \<and>
   similarity video_material_uniforms + smoothness video_material_uniforms
     \<le> chromaDist video_material_uniforms pure_red \<and>
   frag_alpha (main video_material_uniforms pure_red) = Some 1"
proof -
  have h1: "0 < smoothness video_material_uniforms"
    by (simp add: video_material_uniforms_def)
  have h2: "similarity video_material_uniforms + smoothness video_material_uniforms
              \<le> chromaDist video_material_uniforms pure_red"
    using baseMask_red_video by (simp add: baseMask_def)
  show ?thesis using h1 h2 far_pixel_opaque [OF h1 h2] by simp
qed

text \<open>
  C3: the alpha of a pixel is a function of its \<open>chromaDist\<close>, and for fixed uniforms
  with \<open>smoothness > 0\<close> this function is defined everywhere and monotonically
  non-decreasing: \<open>d1 \<le> d2\<close> gives \<open>alpha(d1) \<le> alpha(d2)\<close>.
\<close>

theorem alpha_monotone_in_chromaDist:
  assumes "0 < smoothness p" and "d1 \<le> d2"
  shows "frag_alpha (main p rgba) = fullMask p (baseMask p (chromaDist p rgba)) \<and>
         (\<exists>a1 a2. fullMask p (baseMask p d1) = Some a1 \<and>
                  fullMask p (baseMask p d2) = Some a2 \<and> a1 \<le> a2)"
proof -
  let ?q1 = "(d1 - similarity p) / smoothness p"
  let ?q2 = "(d2 - similarity p) / smoothness p"
  have "?q1 \<le> ?q2" using assms by (simp add: divide_right_mono)
  then have "clamp ?q1 0 1 \<le> clamp ?q2 0 1" by (rule clamp_mono)
  then have "clamp ?q1 0 1 powr 1.5 \<le> clamp ?q2 0 1 powr 1.5"
    using clamp_unit by (intro powr_mono2) auto
  then show ?thesis using assms(1) by (simp add: fullMask_eq baseMask_def main_alpha)
qed

theorem alpha_monotone_in_chromaDist_witness:
  "0 < smoothness material_uniforms \<and> (0.2::real) \<le> 0.5 \<and>
   fullMask material_uniforms (baseMask material_uniforms 0.2) = Some 0 \<and>
   fullMask material_uniforms (baseMask material_uniforms 0.5) = Some 1"
  using alpha_monotone_in_chromaDist [of material_uniforms "0.2" "0.5"]
  by (simp add: material_uniforms_def baseMask_def fullMask_below fullMask_saturated)

subsection \<open>The output colour\<close>

text \<open>
  C4: for every input pixel the output colour is the linear blend between the gray
  \<open>desaturatedLuma = clamp(0.2126R + 0.7152G + 0.0722B, 0, 1)\<close> and the original colour,
  with blend factor \<open>spillFactor = clamp(baseMask / spill, 0, 1)^1.5\<close> (undefined exactly
  when \<open>spill\<close> is 0), and the output alpha is \<open>clamp(baseMask / smoothness, 0, 1)^1.5\<close>
  (undefined exactly when \<open>smoothness\<close> is 0). The colour does not depend on
  \<open>smoothness\<close> and the alpha does not depend on \<open>spill\<close>.
\<close>

theorem main_output_is_spill_blend:
  "frag_rgb (main p rgba) =
     (if spill p = 0 then None
      else
        let desaturatedLuma =
              clamp (0.2126 * red rgba + 0.7152 * green rgba + 0.0722 * blue rgba) 0 1;
            spillFactor = clamp (baseMask p (chromaDist p rgba) / spill p) 0 1 powr 1.5
        in Some \<lparr>red = (1 - spillFactor) * desaturatedLuma + spillFactor * red rgba,
                 green = (1 - spillFactor) * desaturatedLuma + spillFactor * green rgba,
                 blue = (1 - spillFactor) * desaturatedLuma + spillFactor * blue rgba\<rparr>) \<and>
   frag_alpha (main p rgba) =
     (if smoothness p = 0 then None
      else Some (clamp (baseMask p (chromaDist p rgba) / smoothness p) 0 1 powr 1.5)) \<and>
   frag_rgb (main (p\<lparr>smoothness := s\<rparr>) rgba) = frag_rgb (main p rgba) \<and>
   frag_alpha (main (p\<lparr>spill := s\<rparr>) rgba) = frag_alpha (main p rgba)"
proof (intro conjI)
  show "frag_rgb (main p rgba) =
     (if spill p = 0 then None
      else
        let desaturatedLuma =
              clamp (0.2126 * red rgba + 0.7152 * green rgba + 0.0722 * blue rgba) 0 1;
            spillFactor = clamp (baseMask p (chromaDist p rgba) / spill p) 0 1 powr 1.5
        in Some \<lparr>red = (1 - spillFactor) * desaturatedLuma + spillFactor * red rgba,
                 green = (1 - spillFactor) * desaturatedLuma + spillFactor * green rgba,
                 blue = (1 - spillFactor) * desaturatedLuma + spillFactor * blue rgba\<rparr>)"
    by (simp add: main_rgb spillVal_undefined spillVal_eq Let_def mix3_def vec3_of_def
        mix_def desat_def rgb_def mult.commute)
  show "frag_alpha (main p rgba) =
     (if smoothness p = 0 then None
      else Some (clamp (baseMask p (chromaDist p rgba) / smoothness p) 0 1 powr 1.5))"
    by (simp add: main_alpha fullMask_undefined fullMask_eq)
  show "frag_rgb (main (p\<lparr>smoothness := s\<rparr>) rgba) = frag_rgb (main p rgba)"
    by (simp add: main_rgb spillVal_def baseMask_def chromaDist_def)
  show "frag_alpha (main (p\<lparr>spill := s\<rparr>) rgba) = frag_alpha (main p rgba)"
    by (simp add: main_alpha fullMask_def baseMask_def chromaDist_def)
qed

subsection \<open>The two demonstration pixels\<close>

text \<open>
  C5: with key colour \<open>(0,1,0)\<close>, \<open>similarity = 0.4\<close> and \<open>smoothness = 0.08\<close> (the uniforms
  of the video showcase), the shader gives a pure green pixel alpha 0 and a pure red
  pixel alpha 1, where \<open>U = R*(-0.169) + G*(-0.331) + B*0.5 + 0.5\<close>,
  \<open>V = R*0.5 + G*(-0.419) + B*(-0.081) + 0.5\<close> and the chroma distance is Euclidean.
\<close>

theorem green_transparent_red_opaque:
  "frag_alpha (main video_material_uniforms pure_green) = Some 0 \<and>
   frag_alpha (main video_material_uniforms pure_red) = Some 1 \<and>
   chroma_u (RGBtoUV c) = red c * (- 0.169) + green c * (- 0.331) + blue c * 0.5 + 0.5 \<and>
   chroma_v (RGBtoUV c) = red c * 0.5 + green c * (- 0.419) + blue c * (- 0.081) + 0.5 \<and>
   chromaDist p rgba =
     sqrt ((chroma_u (RGBtoUV (rgb rgba)) - chroma_u (RGBtoUV (keyColor p)))\<^sup>2 +
           (chroma_v (RGBtoUV (rgb rgba)) - chroma_v (RGBtoUV (keyColor p)))\<^sup>2)"
proof (intro conjI)
  have "chromaDist video_material_uniforms pure_green = 0"
    by (rule chromaDist_key)
      (simp add: rgb_def video_material_uniforms_def pure_green_def)
  then show "frag_alpha (main video_material_uniforms pure_green) = Some 0"
    by (simp add: main_alpha baseMask_def fullMask_below video_material_uniforms_def)
  have "0 < smoothness video_material_uniforms"
    by (simp add: video_material_uniforms_def)
  then show "frag_alpha (main video_material_uniforms pure_red) = Some 1"
    using baseMask_red_video by (simp only: main_alpha fullMask_saturated)
qed (simp_all add: RGBtoUV_def chromaDist_def distance_def)

subsection \<open>Range of the output\<close>

text \<open>
  C9: for every input pixel with all four channels in \<open>[0,1]\<close> and uniforms with
  \<open>smoothness > 0\<close> and \<open>spill > 0\<close>, the colour and the alpha the shader writes are
  defined (no division by zero, no \<open>pow\<close> outside its domain) and each of the four
  channels lies in \<open>[0,1]\<close>.
\<close>

theorem main_output_in_unit_range:
  assumes "0 \<le> red rgba" "red rgba \<le> 1" "0 \<le> green rgba" "green rgba \<le> 1"
    and "0 \<le> blue rgba" "blue rgba \<le> 1" "0 \<le> alpha rgba" "alpha rgba \<le> 1"
    and "0 < smoothness p" and "0 < spill p"
  shows "\<exists>c a. main p rgba = \<lparr>frag_rgb = Some c, frag_alpha = Some a\<rparr> \<and>
           0 \<le> red c \<and> red c \<le> 1 \<and> 0 \<le> green c \<and> green c \<le> 1 \<and>
           0 \<le> blue c \<and> blue c \<le> 1 \<and> 0 \<le> a \<and> a \<le> 1"
proof -
  let ?sv = "clamp (baseMask p (chromaDist p rgba) / spill p) 0 1 powr 1.5"
  let ?fm = "clamp (baseMask p (chromaDist p rgba) / smoothness p) 0 1 powr 1.5"
  have sv: "0 \<le> ?sv \<and> ?sv \<le> 1" using clamp_unit by (intro powr_unit) auto
  have fm: "0 \<le> ?fm \<and> ?fm \<le> 1" using clamp_unit by (intro powr_unit) auto
  have ds: "0 \<le> desat rgba \<and> desat rgba \<le> 1"
    unfolding desat_def by (rule clamp_unit)
  have r: "0 \<le> mix (desat rgba) (red rgba) ?sv \<and> mix (desat rgba) (red rgba) ?sv \<le> 1"
    using ds sv assms(1,2) by (intro mix_unit) auto
  have g: "0 \<le> mix (desat rgba) (green rgba) ?sv \<and>
           mix (desat rgba) (green rgba) ?sv \<le> 1"
    using ds sv assms(3,4) by (intro mix_unit) auto
  have b: "0 \<le> mix (desat rgba) (blue rgba) ?sv \<and>
           mix (desat rgba) (blue rgba) ?sv \<le> 1"
    using ds sv assms(5,6) by (intro mix_unit) auto
  have "main p rgba =
     \<lparr>frag_rgb = Some \<lparr>red = mix (desat rgba) (red rgba) ?sv,
                       green = mix (desat rgba) (green rgba) ?sv,
                       blue = mix (desat rgba) (blue rgba) ?sv\<rparr>,
      frag_alpha = Some ?fm\<rparr>"
    using assms(9,10)
    by (simp add: main_def Let_def fullMask_eq spillVal_eq mix3_def vec3_of_def rgb_def)
  then show ?thesis using r g b fm by simp
qed

theorem main_output_in_unit_range_witness:
  "0 \<le> red pure_green \<and> red pure_green \<le> 1 \<and>
   0 \<le> green pure_green \<and> green pure_green \<le> 1 \<and>
   0 \<le> blue pure_green \<and> blue pure_green \<le> 1 \<and>
   0 \<le> alpha pure_green \<and> alpha pure_green \<le> 1 \<and>
   0 < smoothness material_uniforms \<and> 0 < spill material_uniforms \<and>
   (\<exists>c a. main material_uniforms pure_green = \<lparr>frag_rgb = Some c, frag_alpha = Some a\<rparr> \<and>
           0 \<le> red c \<and> red c \<le> 1 \<and> 0 \<le> green c \<and> green c \<le> 1 \<and>
           0 \<le> blue c \<and> blue c \<le> 1 \<and> 0 \<le> a \<and> a \<le> 1)"
proof -
  have h: "0 \<le> red pure_green" "red pure_green \<le> 1"
    "0 \<le> green pure_green" "green pure_green \<le> 1"
    "0 \<le> blue pure_green" "blue pure_green \<le> 1"
    "0 \<le> alpha pure_green" "alpha pure_green \<le> 1"
    "0 < smoothness material_uniforms" "0 < spill material_uniforms"
    by (simp_all add: pure_green_def material_uniforms_def)
  show ?thesis
    using h main_output_in_unit_range [OF h] by blast
qed

section \<open>Properties of the application\<close>

subsection \<open>Invariants of runs\<close>

lemma fold_step_invariant:
  assumes "P s" and "\<And>e s. P s \<Longrightarrow> P (step e s)"
  shows "P (fold step evs s)"
  using assms(1) by (induction evs arbitrary: s) (simp_all add: assms(2))

text \<open>The flag \<open>aiImageLoading\<close> is set exactly while one load is pending.\<close>

lemma loads_init: "length (pending_loads init) = (if aiImageLoading init then 1 else 0)"
  by (simp add: init_def animate_def Let_def split: option.split)

lemma loads_step:
  assumes "length (pending_loads s) = (if aiImageLoading s then 1 else 0)"
  shows "length (pending_loads (step e s)) = (if aiImageLoading (step e s) then 1 else 0)"
proof (cases e)
  case (AiGenerateClick v now)
  then show ?thesis using assms
    by (simp add: ai_generate_click_def generateAIScene_def Let_def)
next
  case (AiLoadResolved i img)
  then show ?thesis using assms
    by (auto simp: ai_load_resolved_def ai_finally_def ai_catch_def showToast_def
        remove_nth_def Let_def split: option.split if_splits)
next
  case (AiLoadRejected i)
  then show ?thesis using assms
    by (auto simp: ai_load_rejected_def ai_finally_def ai_catch_def showToast_def
        remove_nth_def split: if_splits)
qed (use assms in \<open>auto simp: toggle_chroma_def next_demo_def similarity_input_def
      smoothness_input_def ar_camera_click_def getUserMedia_resolved_def
      getUserMedia_rejected_def play_resolved_def play_rejected_def animate_def
      toast_timeout_def showToast_def Let_def
      split: option.split list.split if_splits\<close>)

lemma loads_run:
  "length (pending_loads (run evs)) = (if aiImageLoading (run evs) then 1 else 0)"
  unfolding run_def by (rule fold_step_invariant) (simp_all add: loads_init loads_step)

text \<open>\<open>currentDemo\<close> is an index into \<open>DEMOS\<close>.\<close>

lemma demo_init: "\<exists>i. currentDemo init = Num i \<and> i < length (DEMOS init)"
  by (simp add: init_def animate_def Let_def initial_DEMOS_def split: option.split)

lemma demo_step:
  assumes "\<exists>i. currentDemo s = Num i \<and> i < length (DEMOS s)"
  shows "\<exists>i. currentDemo (step e s) = Num i \<and> i < length (DEMOS (step e s))"
proof (cases e)
  case NextDemo
  then show ?thesis using assms
    by (auto simp: next_demo_def succ_mod_def index_def Let_def split: option.split)
next
  case (AiLoadResolved i img)
  then show ?thesis using assms
    by (auto simp: ai_load_resolved_def ai_finally_def ai_catch_def showToast_def
        index_def Let_def split: option.split if_splits)
next
  case (AiGenerateClick v now)
  then show ?thesis using assms
    by (simp add: ai_generate_click_def generateAIScene_def Let_def)
qed (use assms in \<open>auto simp: toggle_chroma_def similarity_input_def
      ai_load_rejected_def ai_finally_def ai_catch_def
      smoothness_input_def ar_camera_click_def getUserMedia_resolved_def
      getUserMedia_rejected_def play_resolved_def play_rejected_def animate_def
      toast_timeout_def showToast_def Let_def
      split: option.split list.split if_splits\<close>)

lemma demo_run: "\<exists>i. currentDemo (run evs) = Num i \<and> i < length (DEMOS (run evs))"
  unfolding run_def by (rule fold_step_invariant) (simp_all add: demo_init demo_step)

lemma next_demo_current:
  "currentDemo s = Num i \<Longrightarrow> i < length (DEMOS s) \<Longrightarrow>
   currentDemo (next_demo s) = Num ((i + 1) mod length (DEMOS s))"
  by (auto simp: next_demo_def succ_mod_def index_def Let_def split: option.split)

lemma ai_load_resolved_demos:
  "(DEMOS (ai_load_resolved k img s) = DEMOS s \<and>
    currentDemo (ai_load_resolved k img s) = currentDemo s) \<or>
   (\<exists>n. DEMOS (ai_load_resolved k img s)
           = DEMOS s @ [\<lparr>demo_name = n, demo_draw = drawAI img\<rparr>] \<and>
        currentDemo (ai_load_resolved k img s) = Num (length (DEMOS s)))"
  by (auto simp: ai_load_resolved_def ai_finally_def ai_catch_def showToast_def
        index_def Let_def split: option.split if_splits)

subsection \<open>One image request at a time\<close>

text \<open>
  C6: after \<open>init\<close> and any list of events, at most one image load is pending, and
  one is pending exactly when \<open>aiImageLoading\<close> is set. A click on AI Generate always
  leaves the flag set, so a second click right after it changes nothing: the two
  clicks together issue one request when no load was pending before them, and none
  otherwise.
\<close>

theorem ai_fetches_serialized:
  "length (pending_loads (run evs)) = (if aiImageLoading (run evs) then 1 else 0) \<and>
   length (pending_loads (run evs)) \<le> 1 \<and>
   aiImageLoading (ai_generate_click v1 n1 s) \<and>
   ai_generate_click v2 n2 (ai_generate_click v1 n1 s) = ai_generate_click v1 n1 s \<and>
   length (network_log (ai_generate_click v2 n2 (ai_generate_click v1 n1 s)))
     = length (network_log s) + (if aiImageLoading s then 0 else 1) \<and>
   length (network_log (run (evs @ [AiGenerateClick v1 n1, AiGenerateClick v2 n2])))
     = length (network_log (run evs)) + (if pending_loads (run evs) = [] then 1 else 0)"
proof (intro conjI)
  show a: "length (pending_loads (run evs)) = (if aiImageLoading (run evs) then 1 else 0)"
    by (rule loads_run)
  then show "length (pending_loads (run evs)) \<le> 1" by simp
  show "aiImageLoading (ai_generate_click v1 n1 s)"
    by (simp add: ai_generate_click_def generateAIScene_def Let_def)
  show "ai_generate_click v2 n2 (ai_generate_click v1 n1 s) = ai_generate_click v1 n1 s"
    by (simp add: ai_generate_click_def generateAIScene_def Let_def)
  show "length (network_log (ai_generate_click v2 n2 (ai_generate_click v1 n1 s)))
     = length (network_log s) + (if aiImageLoading s then 0 else 1)"
    by (simp add: ai_generate_click_def generateAIScene_def Let_def)
  have "aiImageLoading (run evs) \<longleftrightarrow> pending_loads (run evs) \<noteq> []"
    using a by (auto split: if_splits)
  then show
    "length (network_log (run (evs @ [AiGenerateClick v1 n1, AiGenerateClick v2 n2])))
     = length (network_log (run evs)) + (if pending_loads (run evs) = [] then 1 else 0)"
    by (simp add: run_def ai_generate_click_def generateAIScene_def Let_def)
qed

theorem ai_fetches_serialized_witness:
  "length (pending_loads (run [AiGenerateClick None 1, AiGenerateClick (Some ''a cat'') 2]))
     = 1 \<and>
   map url_seed (network_log (run [AiGenerateClick None 1, AiGenerateClick (Some ''a cat'') 2]))
     = [1]"
  using ai_fetches_serialized [where evs = "[]" and ?v1.0 = None and ?n1.0 = 1
      and s = init and ?v2.0 = "Some ''a cat''" and ?n2.0 = 2]
  by (simp add: run_def init_def animate_def index_def initial_DEMOS_def Let_def
      ai_generate_click_def generateAIScene_def truthy_def)

subsection \<open>A failed image request\<close>

text \<open>
  C7: when a pending image load fails, what the shader reads is as before: the
  texture of the material, its uniforms, the material of the mesh, \<open>sourceTexture\<close>,
  the content of \<open>sourceCanvas\<close>, the preview map, \<open>DEMOS\<close> and \<open>currentDemo\<close> are unchanged,
  the next frame draws what it would have drawn, and the toast shows the failure
  until its timeout hides it. The click that issued the request does not change
  these fields either.
\<close>

theorem failed_fetch_leaves_display:
  assumes "i < length (pending_loads s)"
  shows "tex (ai_load_rejected i s) = tex s \<and>
         DEMOS (ai_load_rejected i s) = DEMOS s \<and>
         currentDemo (ai_load_rejected i s) = currentDemo s \<and>
         sourceTexture (ai_load_rejected i s) = sourceTexture s \<and>
         sourceCanvas (ai_load_rejected i s) = sourceCanvas s \<and>
         shader_uniforms (ai_load_rejected i s) = shader_uniforms s \<and>
         videoMesh_material (ai_load_rejected i s) = videoMesh_material s \<and>
         preview_map (ai_load_rejected i s) = preview_map s \<and>
         tex (animate t (ai_load_rejected i s)) = tex (animate t s) \<and>
         sourceCanvas (animate t (ai_load_rejected i s)) = sourceCanvas (animate t s) \<and>
         toast (ai_load_rejected i s) = Some AI_generation_failed \<and>
         toast_visible (ai_load_rejected i s) \<and>
         toast_timer (ai_load_rejected i s) \<and>
         \<not> toast_visible (toast_timeout (ai_load_rejected i s)) \<and>
         \<not> aiImageLoading (ai_load_rejected i s) \<and>
         tex (ai_generate_click v now s0) = tex s0 \<and>
         DEMOS (ai_generate_click v now s0) = DEMOS s0 \<and>
         currentDemo (ai_generate_click v now s0) = currentDemo s0 \<and>
         sourceTexture (ai_generate_click v now s0) = sourceTexture s0 \<and>
         sourceCanvas (ai_generate_click v now s0) = sourceCanvas s0 \<and>
         shader_uniforms (ai_generate_click v now s0) = shader_uniforms s0 \<and>
         videoMesh_material (ai_generate_click v now s0) = videoMesh_material s0 \<and>
         preview_map (ai_generate_click v now s0) = preview_map s0"
  using assms
  by (simp add: ai_load_rejected_def ai_finally_def ai_catch_def showToast_def
      toast_timeout_def animate_def ai_generate_click_def generateAIScene_def Let_def
      split: option.split)

theorem failed_fetch_leaves_display_witness:
  "0 < length (pending_loads (ai_generate_click None 0 init)) \<and>
   tex (ai_load_rejected 0 (ai_generate_click None 0 init)) = SourceCanvasTexture \<and>
   DEMOS (ai_load_rejected 0 (ai_generate_click None 0 init)) = initial_DEMOS \<and>
   currentDemo (ai_load_rejected 0 (ai_generate_click None 0 init)) = Num 0 \<and>
   toast (ai_load_rejected 0 (ai_generate_click None 0 init)) = Some AI_generation_failed"
  using failed_fetch_leaves_display [of 0 "ai_generate_click None 0 init" 0 None 0 init]
  by (simp add: ai_generate_click_def generateAIScene_def Let_def init_def animate_def
      index_def initial_DEMOS_def truthy_def)

subsection \<open>Stopping the camera\<close>

text \<open>
  The stop branch stops the tracks of the stream stored in \<open>window._arStream\<close>, clears
  the reference and leaves alone what the billboard shows. It issues no request and
  cancels none.
\<close>

lemma ar_stop_releases_stored_stream:
  assumes "ar_active s"
  shows "arStream (ar_camera_click m s) = None \<and>
         (\<forall>st. arStream s = Some st \<longrightarrow>
               set (getTracks st) \<inter> live_tracks (ar_camera_click m s) = {}) \<and>
         pending_getUserMedia (ar_camera_click m s) = pending_getUserMedia s \<and>
         pending_play (ar_camera_click m s) = pending_play s \<and>
         \<not> ar_active (ar_camera_click m s) \<and>
         tex (ar_camera_click m s) = tex s \<and>
         DEMOS (ar_camera_click m s) = DEMOS s \<and>
         currentDemo (ar_camera_click m s) = currentDemo s \<and>
         sourceTexture (ar_camera_click m s) = sourceTexture s \<and>
         sourceCanvas (ar_camera_click m s) = sourceCanvas s \<and>
         shader_uniforms (ar_camera_click m s) = shader_uniforms s \<and>
         videoMesh_material (ar_camera_click m s) = videoMesh_material s \<and>
         preview_map (ar_camera_click m s) = preview_map s"
  using assms
  by (auto simp: ar_camera_click_def showToast_def Let_def split: option.split list.split)

text \<open>One activation followed by a stop, with no other camera activity around it.\<close>

lemma ar_start_stop_clean:
  assumes "\<not> ar_active s" and "pending_getUserMedia s = 0" and "pending_play s = 0"
    and "live_tracks s = {}"
  shows "arStream (ar_camera_click m (play_resolved
           (getUserMedia_resolved st (ar_camera_click True s)))) = None \<and>
         live_tracks (ar_camera_click m (play_resolved
           (getUserMedia_resolved st (ar_camera_click True s)))) = {} \<and>
         pending_getUserMedia (ar_camera_click m (play_resolved
           (getUserMedia_resolved st (ar_camera_click True s)))) = 0 \<and>
         tex (ar_camera_click m (play_resolved
           (getUserMedia_resolved st (ar_camera_click True s)))) = tex s \<and>
         sourceCanvas (ar_camera_click m (play_resolved
           (getUserMedia_resolved st (ar_camera_click True s)))) = sourceCanvas s"
  using assms
  by (simp add: ar_camera_click_def showToast_def Let_def play_resolved_def
      getUserMedia_resolved_def)

text \<open>
  C8 asks that stopping an active camera stream leaves no capture request pending
  and the device released. The start branch of the AR handler has no guard against
  a second click while its request is unsettled, as the AI handler has with
  \<open>aiImageLoading\<close>, and \<open>window._arStream\<close> holds one stream only. Two clicks, both
  requests granted (streams with track 1 and track 2), both videos playing, then the
  click that stops: track 2 is stopped, track 1 stays live and no reference to its
  stream is left. With the stop after the first grant only, the second request is
  still pending after it.
\<close>

theorem ar_overlapping_starts_leak_track:
  "ar_active (run [ArCameraClick True, ArCameraClick True,
     GetUserMediaResolved \<lparr>getTracks = [1]\<rparr>, PlayResolved,
     GetUserMediaResolved \<lparr>getTracks = [2]\<rparr>, PlayResolved]) \<and>
   live_tracks (run [ArCameraClick True, ArCameraClick True,
     GetUserMediaResolved \<lparr>getTracks = [1]\<rparr>, PlayResolved,
     GetUserMediaResolved \<lparr>getTracks = [2]\<rparr>, PlayResolved, ArCameraClick True]) = {1} \<and>
   arStream (run [ArCameraClick True, ArCameraClick True,
     GetUserMediaResolved \<lparr>getTracks = [1]\<rparr>, PlayResolved,
     GetUserMediaResolved \<lparr>getTracks = [2]\<rparr>, PlayResolved, ArCameraClick True]) = None \<and>
   ar_active (run [ArCameraClick True, ArCameraClick True,
     GetUserMediaResolved \<lparr>getTracks = [1]\<rparr>, PlayResolved]) \<and>
   pending_getUserMedia (run [ArCameraClick True, ArCameraClick True,
     GetUserMediaResolved \<lparr>getTracks = [1]\<rparr>, PlayResolved, ArCameraClick True]) = 1"
  by (simp add: run_def init_def animate_def index_def initial_DEMOS_def Let_def
      ar_camera_click_def getUserMedia_resolved_def play_resolved_def showToast_def)

subsection \<open>The demo index\<close>

text \<open>
  C10: after \<open>init\<close> and any list of events, \<open>currentDemo\<close> is a number below
  \<open>DEMOS.length\<close>, so \<open>DEMOS[currentDemo]\<close> is defined and \<open>animate\<close> calls its \<open>draw\<close>.
  Next-demo moves the index to its successor modulo the length of the list; a
  resolved image load either leaves list and index alone (when its handler ends in
  the \<open>catch\<close>) or appends one entry and selects it.
\<close>

theorem currentDemo_in_bounds:
  "(\<exists>i d. currentDemo (run evs) = Num i \<and> i < length (DEMOS (run evs)) \<and>
          index (DEMOS (run evs)) (currentDemo (run evs)) = Some d \<and>
          sourceCanvas (animate t (run evs)) = (demo_draw d, t) # sourceCanvas (run evs) \<and>
          currentDemo (next_demo (run evs)) = Num ((i + 1) mod length (DEMOS (run evs)))) \<and>
   ((DEMOS (ai_load_resolved k img (run evs)) = DEMOS (run evs) \<and>
     currentDemo (ai_load_resolved k img (run evs)) = currentDemo (run evs)) \<or>
    (\<exists>n. DEMOS (ai_load_resolved k img (run evs))
            = DEMOS (run evs) @ [\<lparr>demo_name = n, demo_draw = drawAI img\<rparr>] \<and>
         currentDemo (ai_load_resolved k img (run evs)) = Num (length (DEMOS (run evs)))))"
proof
  obtain i where i: "currentDemo (run evs) = Num i" "i < length (DEMOS (run evs))"
    using demo_run by blast
  then have "index (DEMOS (run evs)) (currentDemo (run evs)) = Some (DEMOS (run evs) ! i)"
    by (simp add: index_def)
  moreover from this
  have "sourceCanvas (animate t (run evs))
          = (demo_draw (DEMOS (run evs) ! i), t) # sourceCanvas (run evs)"
    by (simp add: animate_def Let_def)
  ultimately show "\<exists>i d. currentDemo (run evs) = Num i \<and> i < length (DEMOS (run evs)) \<and>
          index (DEMOS (run evs)) (currentDemo (run evs)) = Some d \<and>
          sourceCanvas (animate t (run evs)) = (demo_draw d, t) # sourceCanvas (run evs) \<and>
          currentDemo (next_demo (run evs)) = Num ((i + 1) mod length (DEMOS (run evs)))"
    using i next_demo_current [OF i] by blast
  show "(DEMOS (ai_load_resolved k img (run evs)) = DEMOS (run evs) \<and>
     currentDemo (ai_load_resolved k img (run evs)) = currentDemo (run evs)) \<or>
    (\<exists>n. DEMOS (ai_load_resolved k img (run evs))
            = DEMOS (run evs) @ [\<lparr>demo_name = n, demo_draw = drawAI img\<rparr>] \<and>
         currentDemo (ai_load_resolved k img (run evs)) = Num (length (DEMOS (run evs))))"
    by (rule ai_load_resolved_demos)
qed

theorem currentDemo_in_bounds_witness:
  "currentDemo (run [AiGenerateClick None 7, NextDemo, AiLoadResolved 0 42]) = Num 3 \<and>
   map demo_draw (DEMOS (run [AiGenerateClick None 7, NextDemo, AiLoadResolved 0 42]))
     = [drawRobot, drawLogo, drawParticles, drawAI 42] \<and>
   demo_name (last (DEMOS (run [AiGenerateClick None 7, NextDemo, AiLoadResolved 0 42])))
     = ''AI: holographic dancer perfor'' \<and>
   currentDemo (run [AiGenerateClick None 7, NextDemo, AiLoadResolved 0 42, NextDemo])
     = Num 0"
  using currentDemo_in_bounds
    [where evs = "[AiGenerateClick None 7, NextDemo, AiLoadResolved 0 42]"]
  by (simp add: run_def init_def animate_def index_def initial_DEMOS_def Let_def
      ai_generate_click_def generateAIScene_def truthy_def next_demo_def succ_mod_def
      ai_load_resolved_def remove_nth_def AI_SCENE_PROMPTS_def ai_finally_def
      showToast_def)

end
